theory Spec2Isabelle
  imports Main "HOL-Library.Word" "HOL-Library.Multiset"
begin

section \<open>Data model\<close>

text \<open>
  The repository is a Node.js program in two halves: \<^verbatim>\<open>src/index.js\<close> receives images
  from the messaging transport and stores them, and the viewer (\<^verbatim>\<open>src/view.js\<close> and its
  three variants under \<^verbatim>\<open>src/unnamed\<close>) serves them over HTTP.  JavaScript runs one handler
  at a time, so every handler below is a function from the state it reads to its result
  and the state it leaves; what an external collaborator answers (the database driver,
  the transport, the clock) is an argument.
\<close>

type_synonym bytes = "8 word list"

text \<open>Errors are values: what a rejected promise or a thrown exception carries.\<close>

datatype error =
    ConnectionError string
  | ValidationError
  | DuplicateKey
  | DownloadError string
  | SendError string
  | QueryError string
  | CastError
  | TypeError

text \<open>
  \<^verbatim>\<open>src/models/Image.js\<close>: the schema of a stored image.  \<open>oid\<close> is the document's
  \<^verbatim>\<open>_id\<close>; \<open>timestamp\<close> is in milliseconds, as \<^verbatim>\<open>Date.now()\<close> gives it.
\<close>

record image =
  oid :: string
  messageId :: string
  sender :: string
  timestamp :: int
  imageData :: bytes
  contentType :: string
  caption :: string

section \<open>The TTL cache\<close>

text \<open>
  \<^verbatim>\<open>const cache = new Map()\<close> with entries \<^verbatim>\<open>{ data, timestamp }\<close>.  The field
  \<^verbatim>\<open>timestamp\<close> of an entry is \<open>stored_timestamp\<close> here, since the image record has a
  field of that name already.  \<^verbatim>\<open>CACHE_TTL\<close> is five minutes in \<^verbatim>\<open>src/view.js\<close> and one
  minute in the paginating variant; the two functions are the same text in both files and
  take the constant as their first argument.  \<open>None\<close> is JavaScript's \<^verbatim>\<open>null\<close>.
\<close>

record 'v cache_entry =
  data :: 'v
  stored_timestamp :: int

type_synonym 'v cache = "string \<rightharpoonup> 'v cache_entry"

definition CACHE_TTL :: int where
  "CACHE_TTL = 5 * 60 * 1000"

definition CACHE_TTL_paged :: int where
  "CACHE_TTL_paged = 1 * 60 * 1000"

definition getCachedData :: "int \<Rightarrow> 'v cache \<Rightarrow> int \<Rightarrow> string \<Rightarrow> 'v option" where
  "getCachedData ttl cache now key =
     (case cache key of
        None \<Rightarrow> None
      | Some cached \<Rightarrow>
          if now - stored_timestamp cached < ttl then Some (data cached) else None)"

definition setCachedData :: "'v cache \<Rightarrow> int \<Rightarrow> string \<Rightarrow> 'v \<Rightarrow> 'v cache" where
  "setCachedData cache now key d =
     cache(key \<mapsto> \<lparr>data = d, stored_timestamp = now\<rparr>)"

section \<open>The database connection\<close>

text \<open>
  The viewers connect lazily: every route awaits \<^verbatim>\<open>connectDB()\<close> before it queries.  A
  call of \<^verbatim>\<open>mongoose.connect\<close> is a connection attempt; attempts are numbered in the order
  they are issued, \<open>issued\<close> counts them, and \<open>pending\<close> lists those the driver has not
  settled yet.  \<open>timers\<close> counts the retry timers set and not fired (the retrying variant
  only).  The other fields are the module's variables.
\<close>

record conn_state =
  isConnected :: bool
  connectionPromise :: "nat option"
  connectionAttempts :: nat
  issued :: nat
  pending :: "nat list"
  timers :: nat

definition conn_init :: conn_state where
  "conn_init = \<lparr>isConnected = False, connectionPromise = None, connectionAttempts = 0,
     issued = 0, pending = [], timers = 0\<rparr>"

text \<open>
  What \<^verbatim>\<open>connectDB()\<close> hands to its caller: a promise that is fulfilled already
  (\<open>Resolved\<close>), the promise of attempt \<open>p\<close>, which settles as the attempt does and rejects
  with its error (\<open>Shares p\<close>), or a promise that is fulfilled once attempt \<open>p\<close> has settled,
  whatever its outcome (\<open>After p\<close>).  \<open>caller_outcome out r\<close> is what the caller's
  \<^verbatim>\<open>await\<close> yields when the driver settles each attempt \<open>q\<close> with \<open>out q\<close>.
\<close>

datatype reply = Resolved | Shares nat | After nat

fun caller_outcome :: "(nat \<Rightarrow> error + unit) \<Rightarrow> reply \<Rightarrow> error + unit" where
  "caller_outcome out Resolved = Inr ()"
| "caller_outcome out (Shares p) = out p"
| "caller_outcome out (After p) = Inr ()"

definition mongoose_connect :: "conn_state \<Rightarrow> nat \<times> conn_state" where
  "mongoose_connect s =
     (issued s, s\<lparr>issued := Suc (issued s), pending := pending s @ [issued s]\<rparr>)"

text \<open>\<^verbatim>\<open>src/view.js\<close>, lines 42 to 68, with the two handlers chained on the attempt.\<close>

definition connectDB :: "conn_state \<Rightarrow> reply \<times> conn_state" where
  "connectDB s =
     (if isConnected s then (Resolved, s)
      else case connectionPromise s of
        Some p \<Rightarrow> (Shares p, s)
      | None \<Rightarrow>
          (let (p, s') = mongoose_connect s
           in (Shares p, s'\<lparr>connectionPromise := Some p\<rparr>)))"

definition connect_fulfilled :: "conn_state \<Rightarrow> conn_state" where
  "connect_fulfilled s = s\<lparr>isConnected := True\<rparr>"

definition connect_rejected :: "conn_state \<Rightarrow> conn_state" where
  "connect_rejected s = s\<lparr>isConnected := False, connectionPromise := None\<rparr>"

text \<open>
  The retrying variant (\<^verbatim>\<open>src/unnamed/part_001\<close>, lines 156 to 199): the same, with the
  attempt counter and a timer that calls \<^verbatim>\<open>connectDB()\<close> again two seconds after a
  failure, while fewer than \<^verbatim>\<open>MAX_RETRIES\<close> attempts have been made.
\<close>

definition MAX_RETRIES :: nat where
  "MAX_RETRIES = 3"

definition connectDB_retry :: "conn_state \<Rightarrow> reply \<times> conn_state" where
  "connectDB_retry s =
     (if isConnected s then (Resolved, s)
      else case connectionPromise s of
        Some p \<Rightarrow> (Shares p, s)
      | None \<Rightarrow>
          (let (p, s') = mongoose_connect (s\<lparr>connectionAttempts := Suc (connectionAttempts s)\<rparr>)
           in (Shares p, s'\<lparr>connectionPromise := Some p\<rparr>)))"

definition connect_rejected_retry :: "conn_state \<Rightarrow> conn_state" where
  "connect_rejected_retry s =
     (let s' = s\<lparr>isConnected := False, connectionPromise := None\<rparr>
      in if connectionAttempts s' < MAX_RETRIES then s'\<lparr>timers := Suc (timers s')\<rparr> else s')"

text \<open>
  The first variant (\<^verbatim>\<open>src/unnamed/part_000\<close>, lines 38 to 56) keeps no promise: every call
  made while \<^verbatim>\<open>isConnected\<close> is false awaits an attempt of its own inside
  \<^verbatim>\<open>try\<close>, and the \<^verbatim>\<open>catch\<close> block logs the error and falls through.
\<close>

definition connectDB_plain :: "conn_state \<Rightarrow> reply \<times> conn_state" where
  "connectDB_plain s =
     (if isConnected s then (Resolved, s)
      else (let (p, s') = mongoose_connect s in (After p, s')))"

definition connect_rejected_plain :: "conn_state \<Rightarrow> conn_state" where
  "connect_rejected_plain s = s"

text \<open>
  The events of the connection manager, one handler at a time: a caller invokes
  \<^verbatim>\<open>connectDB()\<close>, the driver settles a pending attempt (and the handler chained on it
  runs), or a retry timer fires.  Settling an attempt that is not pending, and a timer
  that was never set, are not events of the program and leave the state as it is.
\<close>

datatype event = Call | Settle nat "error + unit" | Timer

definition settle ::
  "(conn_state \<Rightarrow> conn_state) \<Rightarrow> (conn_state \<Rightarrow> conn_state) \<Rightarrow>
     conn_state \<Rightarrow> nat \<Rightarrow> error + unit \<Rightarrow> conn_state" where
  "settle on_fulfilled on_rejected s p r =
     (if p \<in> set (pending s)
      then (let s' = s\<lparr>pending := removeAll p (pending s)\<rparr>
            in case r of Inr u \<Rightarrow> on_fulfilled s' | Inl e \<Rightarrow> on_rejected s')
      else s)"

fun step :: "conn_state \<Rightarrow> event \<Rightarrow> conn_state" where
  "step s Call = snd (connectDB s)"
| "step s (Settle p r) = settle connect_fulfilled connect_rejected s p r"
| "step s Timer = s"

fun step_retry :: "conn_state \<Rightarrow> event \<Rightarrow> conn_state" where
  "step_retry s Call = snd (connectDB_retry s)"
| "step_retry s (Settle p r) = settle connect_fulfilled connect_rejected_retry s p r"
| "step_retry s Timer =
     (if timers s = 0 then s else snd (connectDB_retry (s\<lparr>timers := timers s - 1\<rparr>)))"

fun step_plain :: "conn_state \<Rightarrow> event \<Rightarrow> conn_state" where
  "step_plain s Call = snd (connectDB_plain s)"
| "step_plain s (Settle p r) = settle connect_fulfilled connect_rejected_plain s p r"
| "step_plain s Timer = s"

definition run :: "(conn_state \<Rightarrow> event \<Rightarrow> conn_state) \<Rightarrow> event list \<Rightarrow> conn_state" where
  "run st evs = foldl st conn_init evs"

text \<open>\<open>n\<close> calls one after the other, with no attempt settling in between.\<close>

fun calls ::
  "(conn_state \<Rightarrow> reply \<times> conn_state) \<Rightarrow> nat \<Rightarrow> conn_state \<Rightarrow> reply list \<times> conn_state" where
  "calls f 0 s = ([], s)"
| "calls f (Suc n) s =
     (let (r, s1) = f s; (rs, s2) = calls f n s1 in (r # rs, s2))"

text \<open>
  The invariant of the two variants that keep the promise: while the state is
  disconnected and \<^verbatim>\<open>connectionPromise\<close> holds an attempt, exactly that attempt is pending;
  otherwise nothing is.
\<close>

definition conn_inv :: "conn_state \<Rightarrow> bool" where
  "conn_inv s \<longleftrightarrow>
     (case connectionPromise s of
        Some p \<Rightarrow> pending s = (if isConnected s then [] else [p])
      | None \<Rightarrow> pending s = [])"

text \<open>The driver settling every attempt with the same outcome \<open>r\<close>.\<close>

definition settles_with :: "error + unit \<Rightarrow> nat \<Rightarrow> error + unit" where
  "settles_with r p = r"

section \<open>The messaging session\<close>

text \<open>
  \<^verbatim>\<open>src/index.js\<close>.  A message of the transport has a key (the chat it came from and its
  identifier) and, when it carries content, an object with one entry per content type;
  \<^verbatim>\<open>Object.keys\<close> lists the entries in insertion order, so the object is an association
  list.  \<open>key_id\<close> is \<^verbatim>\<open>m.key.id\<close>, \<open>msg_caption\<close> the content's \<^verbatim>\<open>caption\<close>.  An absent
  field (\<^verbatim>\<open>undefined\<close> or \<^verbatim>\<open>null\<close>) is \<open>None\<close>.
\<close>

record message_key =
  remoteJid :: string
  key_id :: string

record message_content =
  mimetype :: "string option"
  msg_caption :: "string option"

record wa_message =
  key :: message_key
  message :: "(string \<times> message_content) list option"

text \<open>\<^verbatim>\<open>v || d\<close> on an optional string: \<open>d\<close> when \<open>v\<close> is absent or empty.\<close>

definition or_default :: "string option \<Rightarrow> string \<Rightarrow> string" where
  "or_default v d = (case v of None \<Rightarrow> d | Some s \<Rightarrow> if s = [] then d else s)"

text \<open>
  \<^verbatim>\<open>image.save()\<close> as the schema of \<^verbatim>\<open>src/models/Image.js\<close> constrains it: the required
  fields must be present and not empty, and \<^verbatim>\<open>messageId\<close> is unique.  The handler takes
  the save operation as an argument, since the driver can fail for other reasons too
  (no connection); this is the instance the schema describes.
\<close>

definition image_save :: "image list \<Rightarrow> image \<Rightarrow> error + image list" where
  "image_save db img =
     (if messageId img = [] \<or> sender img = [] \<or> imageData img = [] \<or> contentType img = []
      then Inl ValidationError
      else if messageId img \<in> set (map messageId db) then Inl DuplicateKey
      else Inr (db @ [img]))"

text \<open>
  The notice sent when processing fails.  It starts with the cross mark U+274C, written
  here as its three UTF-8 bytes.
\<close>

definition error_text :: string where
  "error_text = CHR 0xE2 # CHR 0x9D # CHR 0x8C # '' Error processing image. Please try again.''"

text \<open>
  What one run of the \<^verbatim>\<open>messages.upsert\<close> handler leaves: whether its promise is fulfilled
  or rejected, the stored images, and the calls of \<^verbatim>\<open>sock.sendMessage\<close> it made.
\<close>

datatype outcome = Fulfilled | Rejected error

record upsert_result =
  outcome :: outcome
  stored :: "image list"
  sends :: "(string \<times> string) list"

text \<open>
  The \<^verbatim>\<open>try\<close> block, lines 78 to 99: download, build the document, save.  \<open>new_id\<close> and
  \<open>now\<close> are the \<^verbatim>\<open>_id\<close> and the \<^verbatim>\<open>timestamp\<close> default that \<^verbatim>\<open>new Image\<close> assigns.
\<close>

definition process_image ::
  "(wa_message \<Rightarrow> error + bytes) \<Rightarrow> (image list \<Rightarrow> image \<Rightarrow> error + image list) \<Rightarrow>
     string \<Rightarrow> int \<Rightarrow> image list \<Rightarrow> wa_message \<Rightarrow> message_content \<Rightarrow> error + image list" where
  "process_image downloadMediaMessage save new_id now db m messageContent =
     (case downloadMediaMessage m of
        Inl e \<Rightarrow> Inl e
      | Inr buffer \<Rightarrow>
          save db \<lparr>oid = new_id, messageId = key_id (key m), sender = remoteJid (key m),
            timestamp = now, imageData = buffer,
            contentType = or_default (mimetype messageContent) ''image/jpeg'',
            caption = or_default (msg_caption messageContent) []\<rparr>)"

text \<open>
  The handler, lines 70 to 107.  \<^verbatim>\<open>messages[0]\<close> of an empty batch is \<^verbatim>\<open>undefined\<close>, and
  reading \<^verbatim>\<open>.message\<close> of it throws a TypeError.  The \<^verbatim>\<open>catch\<close> block awaits
  \<^verbatim>\<open>sock.sendMessage\<close> with nothing around it.
\<close>

definition messages_upsert ::
  "(wa_message \<Rightarrow> error + bytes) \<Rightarrow> (image list \<Rightarrow> image \<Rightarrow> error + image list) \<Rightarrow>
     (string \<Rightarrow> string \<Rightarrow> error + unit) \<Rightarrow>
     string \<Rightarrow> int \<Rightarrow> image list \<Rightarrow> wa_message list \<Rightarrow> upsert_result" where
  "messages_upsert downloadMediaMessage save sendMessage new_id now db messages =
     (case messages of
        [] \<Rightarrow> \<lparr>outcome = Rejected TypeError, stored = db, sends = []\<rparr>
      | m # rest \<Rightarrow>
          (case message m of
             None \<Rightarrow> \<lparr>outcome = Fulfilled, stored = db, sends = []\<rparr>
           | Some obj \<Rightarrow>
               (case obj of
                  [] \<Rightarrow> \<lparr>outcome = Fulfilled, stored = db, sends = []\<rparr>
                | (messageType, messageContent) # others \<Rightarrow>
                    if messageType = ''imageMessage''
                    then (case process_image downloadMediaMessage save new_id now db m
                                 messageContent of
                            Inr db' \<Rightarrow> \<lparr>outcome = Fulfilled, stored = db', sends = []\<rparr>
                          | Inl error \<Rightarrow>
                              (case sendMessage (remoteJid (key m)) error_text of
                                 Inr u \<Rightarrow>
                                   \<lparr>outcome = Fulfilled, stored = db,
                                     sends = [(remoteJid (key m), error_text)]\<rparr>
                               | Inl e \<Rightarrow>
                                   \<lparr>outcome = Rejected e, stored = db,
                                     sends = [(remoteJid (key m), error_text)]\<rparr>))
                    else \<lparr>outcome = Fulfilled, stored = db, sends = []\<rparr>)))"

text \<open>Collaborators that answer the same whatever they are asked, for concrete runs.\<close>

definition download_gives :: "error + bytes \<Rightarrow> wa_message \<Rightarrow> error + bytes" where
  "download_gives r m = r"

definition send_gives :: "error + unit \<Rightarrow> string \<Rightarrow> string \<Rightarrow> error + unit" where
  "send_gives r jid text = r"

text \<open>
  The \<^verbatim>\<open>connection.update\<close> handler, lines 56 to 68.  \<open>statusCode\<close> is
  \<^verbatim>\<open>lastDisconnect?.error?.output?.statusCode\<close>, \<open>None\<close> when any link of the chain is
  absent.  The transport library's constant \<^verbatim>\<open>DisconnectReason.loggedOut\<close> is the
  argument \<open>loggedOut\<close>.  What the handler does is a list of actions: lines it logs, and
  the call of \<^verbatim>\<open>connectToWhatsApp()\<close>, made in the handler itself with no timer.
\<close>

record connection_update_event =
  connection :: "string option"
  statusCode :: "int option"

datatype action = LogReconnecting | LogLoggedOut | LogConnected | ConnectToWhatsApp

definition connection_update :: "int \<Rightarrow> connection_update_event \<Rightarrow> action list" where
  "connection_update loggedOut u =
     (if connection u = Some ''close''
      then (let shouldReconnect = (statusCode u \<noteq> Some loggedOut)
            in if shouldReconnect then [LogReconnecting, ConnectToWhatsApp] else [LogLoggedOut])
      else if connection u = Some ''open'' then [LogConnected]
      else [])"

text \<open>
  The session around the handler.  \<^verbatim>\<open>connectToWhatsApp()\<close> makes a socket and attaches the
  handlers to it; \<open>sockets\<close> counts the sockets made and \<open>live\<close> says whether the latest one
  still delivers updates.  The transport reports the closure of a socket once and delivers
  nothing from it afterwards, so a \<^verbatim>\<open>close\<close> update ends the socket it came from, and
  without a live socket no update arrives.
\<close>

record session =
  sockets :: nat
  live :: bool

definition connectToWhatsApp :: "session \<Rightarrow> session" where
  "connectToWhatsApp s = s\<lparr>sockets := Suc (sockets s), live := True\<rparr>"

definition session_init :: session where
  "session_init = connectToWhatsApp \<lparr>sockets = 0, live = False\<rparr>"

fun perform :: "session \<Rightarrow> action \<Rightarrow> session" where
  "perform s ConnectToWhatsApp = connectToWhatsApp s"
| "perform s LogReconnecting = s"
| "perform s LogLoggedOut = s"
| "perform s LogConnected = s"

definition deliver :: "int \<Rightarrow> session \<Rightarrow> connection_update_event \<Rightarrow> session" where
  "deliver loggedOut s u =
     (if live s
      then foldl perform (if connection u = Some ''close'' then s\<lparr>live := False\<rparr> else s)
             (connection_update loggedOut u)
      else s)"

section \<open>The viewer's routes\<close>

text \<open>
  The one cache of the viewer holds two kinds of value: under \<^verbatim>\<open>image_<id>\<close> the object
  \<^verbatim>\<open>{ contentType, imageData }\<close>, under the listing keys an array of images.  Reading
  \<^verbatim>\<open>contentType\<close> or \<^verbatim>\<open>imageData\<close> of an array gives \<^verbatim>\<open>undefined\<close>, here \<open>None\<close>.
\<close>

datatype cached = CachedImage string bytes | CachedImages "image list"

fun cached_contentType :: "cached \<Rightarrow> string option" where
  "cached_contentType (CachedImage ct d) = Some ct"
| "cached_contentType (CachedImages xs) = None"

fun cached_imageData :: "cached \<Rightarrow> bytes option" where
  "cached_imageData (CachedImage ct d) = Some d"
| "cached_imageData (CachedImages xs) = None"

definition empty_cache :: "cached cache" where
  "empty_cache = Map.empty"

text \<open>
  A response: the status, the headers the handler sets with \<^verbatim>\<open>res.set\<close>, in order, and
  what it sends.  \<^verbatim>\<open>res.send\<close> of a buffer puts the bytes on the wire (\<open>Send\<close>).
  \<^verbatim>\<open>res.send\<close> of an object that is no buffer goes through \<^verbatim>\<open>res.json\<close>: for the BSON
  Binary that a \<^verbatim>\<open>.lean()\<close> query returns for a buffer field, what goes out is the JSON
  text of its base64 string, not the bytes (\<open>SendBinary\<close>).  The other bodies are
  \<^verbatim>\<open>res.send\<close> of a text, and \<^verbatim>\<open>res.json\<close> of a cached value or of an error object.
\<close>

datatype body =
    Send "bytes option"
  | SendBinary "bytes option"
  | SendText string
  | Json cached
  | JsonError string

record response =
  status :: nat
  headers :: "(string \<times> string option) list"
  body :: body

text \<open>
  \<^verbatim>\<open>GET /api/image/:id\<close>.  The text of the route is the same in \<^verbatim>\<open>src/view.js\<close>, lines 99
  to 126, and in \<^verbatim>\<open>part_001\<close>, lines 252 to 279, but for the time to live and for
  \<^verbatim>\<open>.lean()\<close> on the query, which decides what \<^verbatim>\<open>res.send\<close> makes of \<^verbatim>\<open>imageData\<close>; both
  are arguments of \<open>image_route\<close>.  \<open>now\<close> is the clock when the cache is read and \<open>now'\<close>
  when it is filled; \<open>connected\<close> is what awaiting \<^verbatim>\<open>connectDB()\<close> yields and \<open>findById\<close>
  what \<^verbatim>\<open>Image.findById\<close> answers: an error (it throws a CastError for a string that is
  no ObjectId, whatever the store holds), no document, or the document.  Any error lands
  in the \<^verbatim>\<open>catch\<close> block.
\<close>

definition image_response :: "string option \<Rightarrow> body \<Rightarrow> response" where
  "image_response ct b =
     \<lparr>status = 200,
      headers = [(''Content-Type'', ct), (''Cache-Control'', Some ''public, max-age=31536000'')],
      body = b\<rparr>"

definition image_route ::
  "int \<Rightarrow> (bytes option \<Rightarrow> body) \<Rightarrow> cached cache \<Rightarrow> int \<Rightarrow> int \<Rightarrow> error + unit \<Rightarrow>
     (string \<Rightarrow> error + image option) \<Rightarrow> string \<Rightarrow> response \<times> cached cache" where
  "image_route ttl send cache now now' connected findById ident =
     (case getCachedData ttl cache now (''image_'' @ ident) of
        Some cachedImage \<Rightarrow>
          (image_response (cached_contentType cachedImage) (send (cached_imageData cachedImage)),
           cache)
      | None \<Rightarrow>
          (case connected of
             Inl e \<Rightarrow>
               (\<lparr>status = 500, headers = [], body = SendText ''Error serving image''\<rparr>, cache)
           | Inr u \<Rightarrow>
               (case findById ident of
                  Inl e \<Rightarrow>
                    (\<lparr>status = 500, headers = [], body = SendText ''Error serving image''\<rparr>,
                     cache)
                | Inr None \<Rightarrow>
                    (\<lparr>status = 404, headers = [], body = SendText ''Image not found''\<rparr>, cache)
                | Inr (Some doc) \<Rightarrow>
                    (image_response (Some (contentType doc)) (send (Some (imageData doc))),
                     setCachedData cache now' (''image_'' @ ident)
                       (CachedImage (contentType doc) (imageData doc))))))"

text \<open>The route of \<^verbatim>\<open>src/view.js\<close>, and the route of \<^verbatim>\<open>part_001\<close> with \<^verbatim>\<open>.lean()\<close>.\<close>

definition get_image ::
  "cached cache \<Rightarrow> int \<Rightarrow> int \<Rightarrow> error + unit \<Rightarrow> (string \<Rightarrow> error + image option) \<Rightarrow>
     string \<Rightarrow> response \<times> cached cache" where
  "get_image = image_route CACHE_TTL Send"

definition get_image_lean ::
  "cached cache \<Rightarrow> int \<Rightarrow> int \<Rightarrow> error + unit \<Rightarrow> (string \<Rightarrow> error + image option) \<Rightarrow>
     string \<Rightarrow> response \<times> cached cache" where
  "get_image_lean = image_route CACHE_TTL_paged SendBinary"

text \<open>
  A store that answers \<open>r\<close> to the lookup, and a stored image whose identifier is an
  ObjectId, for concrete runs.
\<close>

definition findById_gives :: "error + image option \<Rightarrow> string \<Rightarrow> error + image option" where
  "findById_gives r ident = r"

definition sample_document :: image where
  "sample_document =
     \<lparr>oid = ''507f1f77bcf86cd799439011'', messageId = ''m1'', sender = ''s1'',
      timestamp = 1, imageData = [1, 2, 3], contentType = ''image/png'', caption = []\<rparr>"

text \<open>
  JavaScript's numbers are doubles.  On the safe integers, up to \<open>2 ^ 53 - 1\<close> either way,
  they are exact, their sums and products are exact as long as the result is safe, and a
  template literal prints their decimal digits.  The listing route below is modelled for
  the requests whose numbers stay in that range.
\<close>

definition MAX_SAFE_INTEGER :: int where
  "MAX_SAFE_INTEGER = 2 ^ 53 - 1"

definition safe_integer :: "int \<Rightarrow> bool" where
  "safe_integer i \<longleftrightarrow> - MAX_SAFE_INTEGER \<le> i \<and> i \<le> MAX_SAFE_INTEGER"

text \<open>Decimal digits of a number, as a template literal prints a safe integer.\<close>

fun string_of_nat :: "nat \<Rightarrow> string" where
  "string_of_nat n =
     (if n < 10 then [''0123456789'' ! n]
      else string_of_nat (n div 10) @ [''0123456789'' ! (n mod 10)])"

declare string_of_nat.simps [simp del]

definition string_of_int :: "int \<Rightarrow> string" where
  "string_of_int i = (if i < 0 then CHR ''-'' # string_of_nat (nat (- i)) else string_of_nat (nat i))"

text \<open>
  \<^verbatim>\<open>parseInt(q) || d\<close>: the argument is what \<^verbatim>\<open>parseInt\<close> made of the query parameter,
  \<open>None\<close> for \<^verbatim>\<open>NaN\<close>; zero is falsy as well.
\<close>

definition parsed_or :: "int option \<Rightarrow> int \<Rightarrow> int" where
  "parsed_or v d = (case v of None \<Rightarrow> d | Some n \<Rightarrow> if n = 0 then d else n)"

text \<open>
  \<^verbatim>\<open>GET /api/images\<close> with pagination, \<^verbatim>\<open>part_001\<close> lines 282 to 308.  \<open>find_sorted\<close> is
  what the store answers to \<^verbatim>\<open>Image.find().sort({ timestamp: -1 }).skip(skip).limit(limit)\<close>.
  The result is \<open>None\<close> for a request whose page, limit or skip is no safe integer: the
  model says nothing about what the route does with it.
\<close>

definition listing_response :: "cached \<Rightarrow> response" where
  "listing_response c =
     \<lparr>status = 200, headers = [(''Cache-Control'', Some ''public, max-age=300'')],
      body = Json c\<rparr>"

definition list_images ::
  "cached cache \<Rightarrow> int \<Rightarrow> int \<Rightarrow> error + unit \<Rightarrow>
     (int \<Rightarrow> int \<Rightarrow> error + image list) \<Rightarrow> int option \<Rightarrow> int option \<Rightarrow>
     (response \<times> cached cache) option" where
  "list_images cache now now' connected find_sorted page_q limit_q =
     (let page = parsed_or page_q 1;
          limit = parsed_or limit_q 10;
          skip = (page - 1) * limit
      in if safe_integer page \<and> safe_integer limit \<and> safe_integer skip
         then Some
           (case getCachedData CACHE_TTL_paged cache now
                   (''images_page_'' @ string_of_int page) of
              Some cachedImages \<Rightarrow> (listing_response cachedImages, cache)
            | None \<Rightarrow>
                (case connected of
                   Inl e \<Rightarrow>
                     (\<lparr>status = 500, headers = [],
                       body = JsonError ''Error fetching images''\<rparr>, cache)
                 | Inr u \<Rightarrow>
                     (case find_sorted skip limit of
                        Inl e \<Rightarrow>
                          (\<lparr>status = 500, headers = [],
                            body = JsonError ''Error fetching images''\<rparr>, cache)
                      | Inr images \<Rightarrow>
                          (listing_response (CachedImages images),
                           setCachedData cache now' (''images_page_'' @ string_of_int page)
                             (CachedImages images)))))
         else None)"

text \<open>
  The store's side of the listing query.  The sort stage yields some arrangement of the
  stored documents that is descending in the timestamp: the store promises no order among
  documents of equal timestamp, and none that is the same from one query to the next, so
  the arrangement a query gets is an argument, \<open>sorted_docs\<close>, and \<open>newest_first_of db xs\<close>
  says that \<open>xs\<close> is such an arrangement of \<open>db\<close>.  \<open>newest_first\<close> is the one that keeps
  documents of equal timestamp in insertion order.  Then \<open>skip\<close> documents are dropped and
  at most \<open>limit\<close> kept.  The store rejects a negative skip and numbers beyond its 64-bit
  integers; a limit of zero is no limit, and a negative limit counts as its absolute
  value.
\<close>

definition newest_first_of :: "image list \<Rightarrow> image list \<Rightarrow> bool" where
  "newest_first_of db xs \<longleftrightarrow>
     mset xs = mset db \<and> sorted_wrt (\<lambda>a b. timestamp b \<le> timestamp a) xs"

definition newest_first :: "image list \<Rightarrow> image list" where
  "newest_first db = sort_key (\<lambda>r. - timestamp r) db"

definition INT64_MAX :: int where
  "INT64_MAX = 2 ^ 63 - 1"

definition find_page :: "image list \<Rightarrow> int \<Rightarrow> int \<Rightarrow> error + image list" where
  "find_page sorted_docs skip limit =
     (if skip < 0 \<or> INT64_MAX < skip \<or> INT64_MAX < \<bar>limit\<bar>
      then Inl (QueryError ''skip or limit out of range'')
      else (let rest = drop (nat skip) sorted_docs
            in Inr (if limit = 0 then rest else take (nat \<bar>limit\<bar>) rest)))"

text \<open>A store of \<open>n\<close> images with timestamps \<open>1\<close> to \<open>n\<close>, oldest first, for concrete runs.\<close>

definition sample_image :: "nat \<Rightarrow> image" where
  "sample_image i =
     \<lparr>oid = string_of_nat i, messageId = CHR ''m'' # string_of_nat i, sender = ''s1'',
      timestamp = int i, imageData = [1, 2, 3], contentType = ''image/png'', caption = []\<rparr>"

definition sample_store :: "nat \<Rightarrow> image list" where
  "sample_store n = map sample_image [1..<Suc n]"

text \<open>The images a listing response carries, and their identifiers.\<close>

fun listed :: "body \<Rightarrow> image list" where
  "listed (Json (CachedImages xs)) = xs"
| "listed (Json (CachedImage ct d)) = []"
| "listed (Send d) = []"
| "listed (SendBinary d) = []"
| "listed (SendText t) = []"
| "listed (JsonError t) = []"

definition listed_ids :: "(response \<times> cached cache) option \<Rightarrow> string list option" where
  "listed_ids r = map_option (\<lambda>rc. map oid (listed (body (fst rc)))) r"

section \<open>Properties of the cache\<close>

lemma getCachedData_setCachedData_other:
  "k' \<noteq> k \<Longrightarrow>
     getCachedData ttl (setCachedData cache t k v) now k' = getCachedData ttl cache now k'"
  by (simp add: getCachedData_def setCachedData_def)

text \<open>
  C2.  Whatever the cache held for the key before, after \<open>setCachedData\<close> at time \<open>t\<close> the
  entry is the new value stamped \<open>t\<close>, and a read at time \<open>now\<close> returns that value exactly
  when \<open>now - t < ttl\<close>, and \<^verbatim>\<open>null\<close> otherwise.  The statement holds for every time to
  live, so for both constants of the source.
\<close>

theorem cache_set_then_get:
  "setCachedData cache t k v k = Some \<lparr>data = v, stored_timestamp = t\<rparr> \<and>
   getCachedData ttl (setCachedData cache t k v) now k =
     (if now - t < ttl then Some v else None)"
  by (simp add: getCachedData_def setCachedData_def)

section \<open>Properties of the connection manager\<close>

lemma conn_inv_init: "conn_inv conn_init"
  by (simp add: conn_inv_def conn_init_def)

lemma conn_inv_connectDB: "conn_inv s \<Longrightarrow> conn_inv (snd (connectDB s))"
  by (auto simp: conn_inv_def connectDB_def mongoose_connect_def split: option.splits)

lemma conn_inv_connectDB_retry: "conn_inv s \<Longrightarrow> conn_inv (snd (connectDB_retry s))"
  by (auto simp: conn_inv_def connectDB_retry_def mongoose_connect_def split: option.splits)

lemma conn_inv_pending: "conn_inv s \<Longrightarrow> p \<in> set (pending s) \<Longrightarrow>
    pending s = [p] \<and> connectionPromise s = Some p \<and> \<not> isConnected s"
  by (auto simp: conn_inv_def split: option.splits if_splits)

lemma conn_inv_settle:
  "conn_inv s \<Longrightarrow> conn_inv (settle connect_fulfilled connect_rejected s p r)"
  by (auto simp: settle_def Let_def connect_fulfilled_def connect_rejected_def conn_inv_def
      dest!: conn_inv_pending[unfolded conn_inv_def] split: sum.splits option.splits if_splits)

lemma conn_inv_settle_retry:
  "conn_inv s \<Longrightarrow> conn_inv (settle connect_fulfilled connect_rejected_retry s p r)"
  by (auto simp: settle_def Let_def connect_fulfilled_def connect_rejected_retry_def conn_inv_def
      split: sum.splits option.splits if_splits)

lemma conn_inv_timers: "conn_inv (s\<lparr>timers := k\<rparr>) = conn_inv s"
  by (simp add: conn_inv_def split: option.splits)

lemma conn_inv_step: "conn_inv s \<Longrightarrow> conn_inv (step s ev)"
  by (cases ev)
    (simp_all add: conn_inv_connectDB conn_inv_settle)

lemma conn_inv_step_retry: "conn_inv s \<Longrightarrow> conn_inv (step_retry s ev)"
  by (cases ev)
    (simp_all add: conn_inv_connectDB_retry conn_inv_settle_retry conn_inv_timers)

lemma conn_inv_foldl:
  assumes "\<And>s ev. conn_inv s \<Longrightarrow> conn_inv (st s ev)"
  shows "conn_inv s \<Longrightarrow> conn_inv (foldl st s evs)"
  by (induction evs arbitrary: s) (simp_all add: assms)

lemma conn_inv_run: "conn_inv (run step evs)" "conn_inv (run step_retry evs)"
  unfolding run_def
  by (rule conn_inv_foldl, erule conn_inv_step, rule conn_inv_init)
     (rule conn_inv_foldl, erule conn_inv_step_retry, rule conn_inv_init)

lemma calls_fixed: "f s = (r, s) \<Longrightarrow> calls f n s = (replicate n r, s)"
  by (induction n) simp_all

lemma connectDB_connected: "isConnected s \<Longrightarrow> connectDB s = (Resolved, s)"
  by (simp add: connectDB_def)

lemma connectDB_inflight:
  "\<not> isConnected s \<Longrightarrow> connectionPromise s = Some p \<Longrightarrow> connectDB s = (Shares p, s)"
  by (simp add: connectDB_def)

lemma connectDB_idle:
  "\<not> isConnected s \<Longrightarrow> connectionPromise s = None \<Longrightarrow>
   connectDB s = (Shares (issued s),
     s\<lparr>issued := Suc (issued s), pending := pending s @ [issued s],
       connectionPromise := Some (issued s)\<rparr>)"
  by (simp add: connectDB_def mongoose_connect_def)

lemma connectDB_retry_connected: "isConnected s \<Longrightarrow> connectDB_retry s = (Resolved, s)"
  by (simp add: connectDB_retry_def)

lemma connectDB_retry_inflight:
  "\<not> isConnected s \<Longrightarrow> connectionPromise s = Some p \<Longrightarrow> connectDB_retry s = (Shares p, s)"
  by (simp add: connectDB_retry_def)

lemma connectDB_retry_idle:
  "\<not> isConnected s \<Longrightarrow> connectionPromise s = None \<Longrightarrow>
   connectDB_retry s = (Shares (issued s),
     s\<lparr>connectionAttempts := Suc (connectionAttempts s), issued := Suc (issued s),
       pending := pending s @ [issued s], connectionPromise := Some (issued s)\<rparr>)"
  by (simp add: connectDB_retry_def mongoose_connect_def)

text \<open>
  What the two variants share, stated once over a connect function that behaves as the
  three lemmas above say.
\<close>

lemma dedup_generic:
  assumes inv: "conn_inv s"
    and conn: "\<And>s. isConnected s \<Longrightarrow> f s = (Resolved, s)"
    and infl: "\<And>s p. \<not> isConnected s \<Longrightarrow> connectionPromise s = Some p \<Longrightarrow> f s = (Shares p, s)"
    and idle: "\<And>s. \<not> isConnected s \<Longrightarrow> connectionPromise s = None \<Longrightarrow>
        (\<exists>s'. f s = (Shares (issued s), s') \<and> isConnected s' = False \<and>
           connectionPromise s' = Some (issued s) \<and> pending s' = pending s @ [issued s] \<and>
           issued s' = Suc (issued s))"
  shows "length (pending s) \<le> 1 \<and>
     (\<forall>p \<in> set (pending s). f s = (Shares p, s)) \<and>
     (isConnected s \<longrightarrow> f s = (Resolved, s)) \<and>
     (\<not> isConnected s \<longrightarrow> 0 < n \<longrightarrow>
        (\<exists>p. fst (calls f n s) = replicate n (Shares p) \<and>
             pending (snd (calls f n s)) = [p] \<and>
             issued (snd (calls f n s)) = (if pending s = [] then Suc (issued s) else issued s) \<and>
             (\<forall>r \<in> set (fst (calls f n s)). caller_outcome out r = out p)))"
proof (intro conjI impI)
  show "length (pending s) \<le> 1"
    using inv by (auto simp: conn_inv_def split: option.splits)
  show "\<forall>p \<in> set (pending s). f s = (Shares p, s)"
    using inv infl by (auto dest: conn_inv_pending)
  show "f s = (Resolved, s)" if "isConnected s" using that conn by simp
next
  assume dis: "\<not> isConnected s" and n: "0 < n"
  obtain m where m: "n = Suc m" using n by (cases n) auto
  show "\<exists>p. fst (calls f n s) = replicate n (Shares p) \<and>
             pending (snd (calls f n s)) = [p] \<and>
             issued (snd (calls f n s)) = (if pending s = [] then Suc (issued s) else issued s) \<and>
             (\<forall>r \<in> set (fst (calls f n s)). caller_outcome out r = out p)"
  proof (cases "connectionPromise s")
    case (Some p)
    have c: "calls f n s = (replicate n (Shares p), s)"
      using infl[OF dis Some] by (rule calls_fixed)
    have "pending s = [p]" using inv dis Some by (simp add: conn_inv_def)
    with c show ?thesis by auto
  next
    case None
    obtain s' where s': "f s = (Shares (issued s), s')" "isConnected s' = False"
      "connectionPromise s' = Some (issued s)" "pending s' = pending s @ [issued s]"
      "issued s' = Suc (issued s)"
      using idle[OF dis None] by blast
    have "f s' = (Shares (issued s), s')" using infl s' by simp
    then have c: "calls f n s = (replicate n (Shares (issued s)), s')"
      unfolding m using s'(1) by (simp add: calls_fixed)
    have "pending s = []" using inv None by (simp add: conn_inv_def)
    with c s' show ?thesis by auto
  qed
qed

text \<open>
  C1.  In every state the viewer of \<^verbatim>\<open>src/view.js\<close> or the retrying variant can reach,
  by any sequence of calls, settlements and timers: at most one attempt is pending; while
  an attempt \<open>p\<close> is pending a call returns the promise of \<open>p\<close> and changes nothing (no
  second attempt); a call while connected returns a fulfilled promise and changes
  nothing; and \<open>n > 0\<close> calls made while disconnected, before anything settles, all return
  the promise of one attempt \<open>p\<close>, which is then the only pending one, having issued one
  attempt if none was pending and none otherwise, so that all \<open>n\<close> callers get the outcome
  of \<open>p\<close>.
\<close>

theorem connect_deduplicated:
  assumes variant: "(f, st) = (connectDB, step) \<or> (f, st) = (connectDB_retry, step_retry)"
    and s: "s = run st evs"
  shows "length (pending s) \<le> 1 \<and>
     (\<forall>p \<in> set (pending s). f s = (Shares p, s)) \<and>
     (isConnected s \<longrightarrow> f s = (Resolved, s)) \<and>
     (\<not> isConnected s \<longrightarrow> 0 < n \<longrightarrow>
        (\<exists>p. fst (calls f n s) = replicate n (Shares p) \<and>
             pending (snd (calls f n s)) = [p] \<and>
             issued (snd (calls f n s)) = (if pending s = [] then Suc (issued s) else issued s) \<and>
             (\<forall>r \<in> set (fst (calls f n s)). caller_outcome out r = out p)))"
  using variant
proof
  assume "(f, st) = (connectDB, step)"
  then have "f = connectDB" "conn_inv s" using s conn_inv_run(1) by simp_all
  then show ?thesis
    by (intro dedup_generic) (simp_all add: connectDB_connected connectDB_inflight connectDB_idle)
next
  assume "(f, st) = (connectDB_retry, step_retry)"
  then have "f = connectDB_retry" "conn_inv s" using s conn_inv_run(2) by simp_all
  then show ?thesis
    by (intro dedup_generic)
      (simp_all add: connectDB_retry_connected connectDB_retry_inflight connectDB_retry_idle)
qed

text \<open>
  Three calls on the fresh state of \<^verbatim>\<open>src/view.js\<close>, and two calls in the retrying
  variant made after a first attempt failed and its retry timer started the second one.
\<close>

theorem connect_deduplicated_witness:
  "calls connectDB 3 (run step []) =
     ([Shares 0, Shares 0, Shares 0],
      \<lparr>isConnected = False, connectionPromise = Some 0, connectionAttempts = 0,
        issued = 1, pending = [0], timers = 0\<rparr>) \<and>
   calls connectDB_retry 2 (run step_retry [Call, Settle 0 (Inl (ConnectionError ''down'')), Timer]) =
     ([Shares 1, Shares 1],
      \<lparr>isConnected = False, connectionPromise = Some 1, connectionAttempts = 2,
        issued = 2, pending = [1], timers = 0\<rparr>)"
  using connect_deduplicated [of connectDB step "run step []" "[]" 3 "\<lambda>_. Inr ()"]
    connect_deduplicated [of connectDB_retry step_retry
      "run step_retry [Call, Settle 0 (Inl (ConnectionError ''down'')), Timer]"
      "[Call, Settle 0 (Inl (ConnectionError ''down'')), Timer]" 2 "\<lambda>_. Inr ()"]
  by (simp add: run_def conn_init_def connectDB_def connectDB_retry_def mongoose_connect_def
      settle_def connect_rejected_retry_def MAX_RETRIES_def numeral_3_eq_3 numeral_2_eq_2)

text \<open>
  The success transition: when a pending attempt is fulfilled the state is connected, and
  a call then returns a fulfilled promise and starts nothing.
\<close>

lemma connect_success_then_resolved:
  assumes "p \<in> set (pending s)"
  shows "isConnected (step s (Settle p (Inr ())))"
    and "connectDB (step s (Settle p (Inr ()))) = (Resolved, step s (Settle p (Inr ())))"
    and "isConnected (step_retry s (Settle p (Inr ())))"
    and "connectDB_retry (step_retry s (Settle p (Inr ()))) =
      (Resolved, step_retry s (Settle p (Inr ())))"
  using assms
  by (simp_all add: settle_def connect_fulfilled_def connectDB_def connectDB_retry_def)

lemma settle_rejected_pending:
  "p \<in> set (pending s) \<Longrightarrow> settle g h s p (Inl e) = h (s\<lparr>pending := removeAll p (pending s)\<rparr>)"
  by (simp add: settle_def)

lemma failure_generic:
  assumes inv: "conn_inv s" and p: "p \<in> set (pending s)" and out: "out p = Inl e"
    and infl: "\<And>s p. \<not> isConnected s \<Longrightarrow> connectionPromise s = Some p \<Longrightarrow> f s = (Shares p, s)"
    and idle: "\<And>s. \<not> isConnected s \<Longrightarrow> connectionPromise s = None \<Longrightarrow>
        (\<exists>s'. f s = (Shares (issued s), s') \<and> isConnected s' = False \<and>
           connectionPromise s' = Some (issued s) \<and> pending s' = pending s @ [issued s] \<and>
           issued s' = Suc (issued s))"
    and s': "isConnected s' = False" "connectionPromise s' = None"
      "pending s' = removeAll p (pending s)" "issued s' = issued s"
  shows "isConnected s' = False \<and> connectionPromise s' = None \<and> pending s' = [] \<and>
     (\<forall>r \<in> set (fst (calls f n s)). caller_outcome out r = Inl e) \<and>
     fst (f s') = Shares (issued s) \<and> pending (snd (f s')) = [issued s] \<and>
     issued (snd (f s')) = Suc (issued s)"
proof -
  from conn_inv_pending[OF inv p]
  have ps: "pending s = [p]" "connectionPromise s = Some p" "\<not> isConnected s" by simp_all
  have "calls f n s = (replicate n (Shares p), s)"
    using infl[OF ps(3) ps(2)] by (rule calls_fixed)
  then have a: "\<forall>r \<in> set (fst (calls f n s)). caller_outcome out r = Inl e"
    using out by simp
  have e: "pending s' = []" using s'(3) ps(1) by simp
  obtain s'' where "f s' = (Shares (issued s'), s'')" "pending s'' = pending s' @ [issued s']"
    "issued s'' = Suc (issued s')"
    using idle[of s'] s'(1,2) by auto
  with a e s' show ?thesis by simp
qed

text \<open>
  C3, for the variants that keep the promise.  In \<^verbatim>\<open>src/view.js\<close> and in the retrying
  variant, in every state they can reach, when the pending attempt \<open>p\<close> fails with \<open>e\<close> the
  state becomes disconnected, the promise is cleared and nothing is pending; every call
  made while \<open>p\<close> was pending yields \<open>e\<close> to its caller; and the next call starts a new
  attempt.
\<close>

theorem connect_failure:
  assumes variant: "(f, st) = (connectDB, step) \<or> (f, st) = (connectDB_retry, step_retry)"
    and s: "s = run st evs"
    and p: "p \<in> set (pending s)"
    and out: "out p = Inl e"
    and s': "s' = st s (Settle p (Inl e))"
  shows "isConnected s' = False \<and> connectionPromise s' = None \<and> pending s' = [] \<and>
     (\<forall>r \<in> set (fst (calls f n s)). caller_outcome out r = Inl e) \<and>
     fst (f s') = Shares (issued s) \<and> pending (snd (f s')) = [issued s] \<and>
     issued (snd (f s')) = Suc (issued s)"
  using variant
proof
  assume "(f, st) = (connectDB, step)"
  then have fs: "f = connectDB" "st = step" by simp_all
  have inv: "conn_inv s" using s fs conn_inv_run(1) by simp
  show ?thesis unfolding fs(1)
    by (rule failure_generic[where out=out and p=p and e=e, OF inv p out])
      (simp_all add: connectDB_inflight connectDB_idle s' fs settle_rejected_pending[OF p]
        connect_rejected_def)
next
  assume "(f, st) = (connectDB_retry, step_retry)"
  then have fs: "f = connectDB_retry" "st = step_retry" by simp_all
  have inv: "conn_inv s" using s fs conn_inv_run(2) by simp
  show ?thesis unfolding fs(1)
    by (rule failure_generic[where out=out and p=p and e=e, OF inv p out])
      (simp_all add: connectDB_retry_inflight connectDB_retry_idle s' fs
        settle_rejected_pending[OF p] connect_rejected_retry_def Let_def)
qed

text \<open>
  One call, then the attempt fails with \<open>ConnectionError ''down''\<close>: in \<^verbatim>\<open>src/view.js\<close> the
  state is the fresh one again but for the count of attempts, the caller gets the error,
  and the next call starts attempt \<open>1\<close>; in the retrying variant a retry timer is set as
  well.
\<close>

theorem connect_failure_witness:
  "step (run step [Call]) (Settle 0 (Inl (ConnectionError ''down''))) = conn_init\<lparr>issued := 1\<rparr> \<and>
   caller_outcome (settles_with (Inl (ConnectionError ''down''))) (fst (connectDB conn_init))
     = Inl (ConnectionError ''down'') \<and>
   fst (connectDB (conn_init\<lparr>issued := 1\<rparr>)) = Shares 1 \<and>
   step_retry (run step_retry [Call]) (Settle 0 (Inl (ConnectionError ''down''))) =
     conn_init\<lparr>issued := 1, connectionAttempts := 1, timers := 1\<rparr>"
  using connect_failure [of connectDB step "run step [Call]" "[Call]" 0
      "settles_with (Inl (ConnectionError ''down''))" "ConnectionError ''down''"
      "step (run step [Call]) (Settle 0 (Inl (ConnectionError ''down'')))" 1]
    connect_failure [of connectDB_retry step_retry "run step_retry [Call]" "[Call]" 0
      "settles_with (Inl (ConnectionError ''down''))" "ConnectionError ''down''"
      "step_retry (run step_retry [Call]) (Settle 0 (Inl (ConnectionError ''down'')))" 1]
  by (simp add: run_def conn_init_def connectDB_def connectDB_retry_def mongoose_connect_def
      settle_def connect_rejected_def connect_rejected_retry_def MAX_RETRIES_def
      settles_with_def)

text \<open>
  C3 as stated fails on \<^verbatim>\<open>src/unnamed/part_000\<close>, lines 40 to 56: the first call on the
  fresh state awaits attempt \<open>0\<close> inside \<^verbatim>\<open>try\<close>, and when that attempt fails the caller
  gets a fulfilled promise, not the error.
\<close>

theorem connect_failure_swallowed:
  "connectDB_plain conn_init = (After 0, conn_init\<lparr>issued := 1, pending := [0]\<rparr>) \<and>
   step_plain (run step_plain [Call]) (Settle 0 (Inl (ConnectionError ''down''))) =
     conn_init\<lparr>issued := 1\<rparr> \<and>
   caller_outcome (settles_with (Inl (ConnectionError ''down''))) (fst (connectDB_plain conn_init))
     = Inr () \<and>
   caller_outcome (settles_with (Inl (ConnectionError ''down''))) (fst (connectDB_plain conn_init))
     \<noteq> Inl (ConnectionError ''down'')"
  by (simp add: run_def conn_init_def connectDB_plain_def mongoose_connect_def settle_def
      connect_rejected_plain_def settles_with_def)

section \<open>Properties of the message handler\<close>

text \<open>
  C4.  A batch whose first message has no content, an empty content object, or a first
  content type other than \<^verbatim>\<open>imageMessage\<close> is ignored: the handler's promise is fulfilled,
  nothing is stored and nothing is sent.  For a first message of type \<^verbatim>\<open>imageMessage\<close>
  whose download gives \<open>buf\<close>, the document handed to the save operation has the message's
  identifier, its sender, \<open>buf\<close>, the MIME type (\<^verbatim>\<open>image/jpeg\<close> when absent or empty) and
  the caption (empty when absent); when the save succeeds its result is what is stored,
  and under the schema's save that is the old store with this document added.
\<close>

theorem upsert_images_only:
  "((message m = None \<or> message m = Some [] \<or>
      (message m = Some ((ty, c) # others) \<and> ty \<noteq> ''imageMessage'')) \<longrightarrow>
      messages_upsert dl sv sm nid now db (m # rest) =
        \<lparr>outcome = Fulfilled, stored = db, sends = []\<rparr>) \<and>
   (message m = Some ((''imageMessage'', c) # others) \<longrightarrow> dl m = Inr buf \<longrightarrow>
      img = \<lparr>oid = nid, messageId = key_id (key m), sender = remoteJid (key m),
              timestamp = now, imageData = buf,
              contentType = (case mimetype c of None \<Rightarrow> ''image/jpeg''
                             | Some t \<Rightarrow> if t = [] then ''image/jpeg'' else t),
              caption = (case msg_caption c of None \<Rightarrow> [] | Some t \<Rightarrow> t)\<rparr> \<longrightarrow>
      (sv db img = Inr db' \<longrightarrow>
         messages_upsert dl sv sm nid now db (m # rest) =
           \<lparr>outcome = Fulfilled, stored = db', sends = []\<rparr>) \<and>
      (key_id (key m) \<noteq> [] \<longrightarrow> remoteJid (key m) \<noteq> [] \<longrightarrow> buf \<noteq> [] \<longrightarrow>
       key_id (key m) \<notin> set (map messageId db) \<longrightarrow>
         messages_upsert dl image_save sm nid now db (m # rest) =
           \<lparr>outcome = Fulfilled, stored = db @ [img], sends = []\<rparr>))"
  by (auto simp: messages_upsert_def process_image_def image_save_def or_default_def
      split: option.splits)

text \<open>
  An image without MIME type and caption is stored with the defaults; a text message
  leaves the store empty.
\<close>

theorem upsert_images_only_witness:
  "messages_upsert (download_gives (Inr [1, 2, 3])) image_save (send_gives (Inr ())) ''id1'' 1000 []
     [\<lparr>key = \<lparr>remoteJid = ''s1'', key_id = ''m1''\<rparr>,
       message = Some [(''imageMessage'', \<lparr>mimetype = None, msg_caption = None\<rparr>)]\<rparr>] =
     \<lparr>outcome = Fulfilled,
       stored = [\<lparr>oid = ''id1'', messageId = ''m1'', sender = ''s1'', timestamp = 1000,
         imageData = [1, 2, 3], contentType = ''image/jpeg'', caption = []\<rparr>],
       sends = []\<rparr> \<and>
   messages_upsert (download_gives (Inr [1, 2, 3])) image_save (send_gives (Inr ())) ''id1'' 1000 []
     [\<lparr>key = \<lparr>remoteJid = ''s1'', key_id = ''m2''\<rparr>,
       message = Some [(''conversation'', \<lparr>mimetype = None, msg_caption = None\<rparr>)]\<rparr>] =
     \<lparr>outcome = Fulfilled, stored = [], sends = []\<rparr>"
  using upsert_images_only [of
      "\<lparr>key = \<lparr>remoteJid = ''s1'', key_id = ''m1''\<rparr>,
        message = Some [(''imageMessage'', \<lparr>mimetype = None, msg_caption = None\<rparr>)]\<rparr>"
      "''conversation''" "\<lparr>mimetype = None, msg_caption = None\<rparr>" "[]"
      "download_gives (Inr [1, 2, 3])" image_save "send_gives (Inr ())" "''id1''" 1000 "[]" "[]"
      "[1, 2, 3]"
      "\<lparr>oid = ''id1'', messageId = ''m1'', sender = ''s1'', timestamp = 1000,
         imageData = [1, 2, 3], contentType = ''image/jpeg'', caption = []\<rparr>"
      "[\<lparr>oid = ''id1'', messageId = ''m1'', sender = ''s1'', timestamp = 1000,
         imageData = [1, 2, 3], contentType = ''image/jpeg'', caption = []\<rparr>]"]
    upsert_images_only [of
      "\<lparr>key = \<lparr>remoteJid = ''s1'', key_id = ''m2''\<rparr>,
        message = Some [(''conversation'', \<lparr>mimetype = None, msg_caption = None\<rparr>)]\<rparr>"
      "''conversation''" "\<lparr>mimetype = None, msg_caption = None\<rparr>" "[]"
      "download_gives (Inr [1, 2, 3])" image_save "send_gives (Inr ())" "''id1''" 1000 "[]" "[]"]
  by (simp add: download_gives_def image_save_def)

text \<open>
  C10.  The handler reads \<^verbatim>\<open>messages[0]\<close> only: the rest of the batch never changes its
  result.  So when the first message has no content or is a text message, nothing is
  stored and nothing is sent, whatever images the later positions carry.
\<close>

theorem upsert_first_message_only:
  "messages_upsert dl sv sm nid now db (m # rest) = messages_upsert dl sv sm nid now db [m] \<and>
   messages_upsert dl sv sm nid now db
     (\<lparr>key = k, message = None\<rparr> # rest) = \<lparr>outcome = Fulfilled, stored = db, sends = []\<rparr> \<and>
   messages_upsert dl sv sm nid now db
     (\<lparr>key = k, message = Some ((''conversation'', c) # others)\<rparr> # rest) =
       \<lparr>outcome = Fulfilled, stored = db, sends = []\<rparr>"
  by (simp add: messages_upsert_def)

text \<open>
  C5, as the code has it.  When the \<^verbatim>\<open>try\<close> block of an image event fails (the download
  or the save, a duplicate identifier included), the store is unchanged and the handler
  calls \<^verbatim>\<open>sock.sendMessage\<close> once, with the notice, for the sender.  The handler's promise
  is then fulfilled when that send succeeds, and rejected with the send's error when it
  fails: nothing catches it.
\<close>

theorem upsert_failure_notice:
  "message m = Some ((''imageMessage'', c) # others) \<longrightarrow>
   process_image dl sv nid now db m c = Inl e \<longrightarrow>
     stored (messages_upsert dl sv sm nid now db (m # rest)) = db \<and>
     sends (messages_upsert dl sv sm nid now db (m # rest)) = [(remoteJid (key m), error_text)] \<and>
     outcome (messages_upsert dl sv sm nid now db (m # rest)) =
       (case sm (remoteJid (key m)) error_text of Inr u \<Rightarrow> Fulfilled | Inl e' \<Rightarrow> Rejected e')"
  by (simp add: messages_upsert_def split: sum.splits)

text \<open>A second image with the identifier of a stored one: the save fails, the notice is sent.\<close>

theorem upsert_failure_notice_witness:
  "messages_upsert (download_gives (Inr [1, 2, 3])) image_save (send_gives (Inr ())) ''id2'' 2000
     [\<lparr>oid = ''id1'', messageId = ''m1'', sender = ''s1'', timestamp = 1000,
         imageData = [1, 2, 3], contentType = ''image/jpeg'', caption = []\<rparr>]
     [\<lparr>key = \<lparr>remoteJid = ''s1'', key_id = ''m1''\<rparr>,
       message = Some [(''imageMessage'', \<lparr>mimetype = None, msg_caption = None\<rparr>)]\<rparr>] =
     \<lparr>outcome = Fulfilled,
       stored = [\<lparr>oid = ''id1'', messageId = ''m1'', sender = ''s1'', timestamp = 1000,
         imageData = [1, 2, 3], contentType = ''image/jpeg'', caption = []\<rparr>],
       sends = [(''s1'', error_text)]\<rparr>"
  using upsert_failure_notice [of
      "\<lparr>key = \<lparr>remoteJid = ''s1'', key_id = ''m1''\<rparr>,
        message = Some [(''imageMessage'', \<lparr>mimetype = None, msg_caption = None\<rparr>)]\<rparr>"
      "\<lparr>mimetype = None, msg_caption = None\<rparr>" "[]"
      "download_gives (Inr [1, 2, 3])" image_save "''id2''" 2000
      "[\<lparr>oid = ''id1'', messageId = ''m1'', sender = ''s1'', timestamp = 1000,
         imageData = [1, 2, 3], contentType = ''image/jpeg'', caption = []\<rparr>]"
      DuplicateKey "send_gives (Inr ())" "[]"]
  by (simp add: process_image_def download_gives_def image_save_def or_default_def
      send_gives_def upsert_result.equality)

text \<open>
  C5 as stated fails: the same duplicate, with a transport whose send fails.  The error
  of the send leaves the handler as the rejection of its promise.
\<close>

theorem upsert_failure_notice_escalates:
  "messages_upsert (download_gives (Inr [1, 2, 3])) image_save
     (send_gives (Inl (SendError ''closed''))) ''id2'' 2000
     [\<lparr>oid = ''id1'', messageId = ''m1'', sender = ''s1'', timestamp = 1000,
         imageData = [1, 2, 3], contentType = ''image/jpeg'', caption = []\<rparr>]
     [\<lparr>key = \<lparr>remoteJid = ''s1'', key_id = ''m1''\<rparr>,
       message = Some [(''imageMessage'', \<lparr>mimetype = None, msg_caption = None\<rparr>)]\<rparr>] =
     \<lparr>outcome = Rejected (SendError ''closed''),
       stored = [\<lparr>oid = ''id1'', messageId = ''m1'', sender = ''s1'', timestamp = 1000,
         imageData = [1, 2, 3], contentType = ''image/jpeg'', caption = []\<rparr>],
       sends = [(''s1'', error_text)]\<rparr>"
  by (simp add: messages_upsert_def process_image_def download_gives_def image_save_def
      or_default_def send_gives_def)

section \<open>Properties of the session\<close>

lemma deliver_not_live: "\<not> live s \<Longrightarrow> deliver lo s u = s"
  by (simp add: deliver_def)

lemma foldl_deliver_not_live: "\<not> live s \<Longrightarrow> foldl (deliver lo) s us = s"
  by (induction us) (simp_all add: deliver_not_live)

text \<open>
  C6.  On a closure whose status code is \<open>loggedOut\<close> the handler only logs; delivered to
  a live session, the update leaves no live socket, and the session stays as it is, with
  no further socket made, whatever updates follow.  On a closure with any other status
  code, or none, the handler calls \<^verbatim>\<open>connectToWhatsApp()\<close> itself, and the session has one
  more socket, live.
\<close>

theorem session_close:
  "(connection u = Some ''close'' \<longrightarrow> statusCode u = Some lo \<longrightarrow>
      connection_update lo u = [LogLoggedOut] \<and>
      (live s \<longrightarrow>
         deliver lo s u = \<lparr>sockets = sockets s, live = False\<rparr> \<and>
         foldl (deliver lo) (deliver lo s u) us = \<lparr>sockets = sockets s, live = False\<rparr>)) \<and>
   (connection u = Some ''close'' \<longrightarrow> statusCode u \<noteq> Some lo \<longrightarrow>
      connection_update lo u = [LogReconnecting, ConnectToWhatsApp] \<and>
      (live s \<longrightarrow> deliver lo s u = \<lparr>sockets = Suc (sockets s), live = True\<rparr>))"
proof (intro conjI impI)
  assume c: "connection u = Some ''close''" and o: "statusCode u = Some lo"
  show a: "connection_update lo u = [LogLoggedOut]"
    using c o by (simp add: connection_update_def)
  assume l: "live s"
  show d: "deliver lo s u = \<lparr>sockets = sockets s, live = False\<rparr>"
    using c l a by (simp add: deliver_def)
  show "foldl (deliver lo) (deliver lo s u) us = \<lparr>sockets = sockets s, live = False\<rparr>"
    unfolding d by (rule foldl_deliver_not_live) simp
next
  assume c: "connection u = Some ''close''" and o: "statusCode u \<noteq> Some lo"
  show a: "connection_update lo u = [LogReconnecting, ConnectToWhatsApp]"
    using c o by (simp add: connection_update_def)
  assume l: "live s"
  show "deliver lo s u = \<lparr>sockets = Suc (sockets s), live = True\<rparr>"
    using c l a by (simp add: deliver_def connectToWhatsApp_def)
qed

text \<open>
  With \<open>loggedOut = 401\<close>: the session opens, loses its connection (428) and reconnects,
  is logged out, and a closure that follows changes nothing.  A closure with no status
  code reconnects.
\<close>

theorem session_close_witness:
  "foldl (deliver 401) session_init
     [\<lparr>connection = Some ''open'', statusCode = None\<rparr>,
      \<lparr>connection = Some ''close'', statusCode = Some 428\<rparr>,
      \<lparr>connection = Some ''close'', statusCode = Some 401\<rparr>,
      \<lparr>connection = Some ''close'', statusCode = Some 428\<rparr>] =
     \<lparr>sockets = 2, live = False\<rparr> \<and>
   deliver 401 session_init \<lparr>connection = Some ''close'', statusCode = None\<rparr> =
     \<lparr>sockets = 2, live = True\<rparr>"
  using session_close [of "\<lparr>connection = Some ''close'', statusCode = Some 401\<rparr>" 401
      "\<lparr>sockets = 2, live = True\<rparr>" "[\<lparr>connection = Some ''close'', statusCode = Some 428\<rparr>]"]
    session_close [of "\<lparr>connection = Some ''close'', statusCode = None\<rparr>" 401 session_init]
  by (simp add: session_init_def connectToWhatsApp_def deliver_def connection_update_def)

section \<open>Properties of the image route\<close>

lemma getCachedData_miss_later:
  "getCachedData ttl cache now k = None \<Longrightarrow> now \<le> t \<Longrightarrow> getCachedData ttl cache t k = None"
  by (auto simp: getCachedData_def split: option.splits if_splits)

lemma image_route_miss:
  assumes miss: "getCachedData ttl cache now (''image_'' @ ident) = None"
  shows "image_route ttl send cache now now' (Inr ()) findById ident =
     (case findById ident of
        Inl e \<Rightarrow> (\<lparr>status = 500, headers = [], body = SendText ''Error serving image''\<rparr>, cache)
      | Inr None \<Rightarrow> (\<lparr>status = 404, headers = [], body = SendText ''Image not found''\<rparr>, cache)
      | Inr (Some doc) \<Rightarrow>
          (image_response (Some (contentType doc)) (send (Some (imageData doc))),
           setCachedData cache now' (''image_'' @ ident)
             (CachedImage (contentType doc) (imageData doc))))"
  using miss by (simp add: image_route_def)

text \<open>
  C7, as the code has it.  For the route of \<^verbatim>\<open>src/view.js\<close> and the one of \<^verbatim>\<open>part_001\<close>,
  on a cache miss with the database connected.  When the store looks the identifier up
  and has no document for it, the response is 404 and the cache is exactly as before, so
  a request at any later time, once the store has a document for it, is answered with
  that document.  When the lookup fails, as it does for an identifier that is no
  ObjectId, the response is 500 and the cache is as before.  When the store has a
  document, the response carries it (its bytes in \<^verbatim>\<open>src/view.js\<close>, the JSON text of its
  Binary in \<^verbatim>\<open>part_001\<close>) and the cache holds its content type and data under the
  identifier's key, stamped with the time of the fill.
\<close>

theorem get_image_lookup:
  assumes variant: "(route, ttl, send) = (get_image, CACHE_TTL, Send) \<or>
      (route, ttl, send) = (get_image_lean, CACHE_TTL_paged, SendBinary)"
    and miss: "getCachedData ttl cache now (''image_'' @ ident) = None"
  shows
    "(findById ident = Inr None \<longrightarrow>
        route cache now now' (Inr ()) findById ident =
          (\<lparr>status = 404, headers = [], body = SendText ''Image not found''\<rparr>, cache) \<and>
        (now \<le> t \<longrightarrow> findById' ident = Inr (Some img) \<longrightarrow>
           fst (route (snd (route cache now now' (Inr ()) findById ident))
                  t t' (Inr ()) findById' ident) =
             \<lparr>status = 200,
               headers = [(''Content-Type'', Some (contentType img)),
                          (''Cache-Control'', Some ''public, max-age=31536000'')],
               body = send (Some (imageData img))\<rparr>)) \<and>
     (findById ident = Inl e \<longrightarrow>
        route cache now now' (Inr ()) findById ident =
          (\<lparr>status = 500, headers = [], body = SendText ''Error serving image''\<rparr>, cache)) \<and>
     (findById ident = Inr (Some img) \<longrightarrow>
        route cache now now' (Inr ()) findById ident =
          (\<lparr>status = 200,
             headers = [(''Content-Type'', Some (contentType img)),
                        (''Cache-Control'', Some ''public, max-age=31536000'')],
             body = send (Some (imageData img))\<rparr>,
           cache(''image_'' @ ident \<mapsto>
             \<lparr>data = CachedImage (contentType img) (imageData img), stored_timestamp = now'\<rparr>)))"
proof -
  have route: "route = image_route ttl send"
    using variant by (auto simp: get_image_def get_image_lean_def)
  show ?thesis
  proof (intro conjI impI)
    assume nf: "findById ident = Inr None"
    show first: "route cache now now' (Inr ()) findById ident =
          (\<lparr>status = 404, headers = [], body = SendText ''Image not found''\<rparr>, cache)"
      unfolding route using nf by (simp add: image_route_miss[OF miss])
    assume later: "now \<le> t" and hit: "findById' ident = Inr (Some img)"
    have "getCachedData ttl cache t (''image_'' @ ident) = None"
      using miss later by (rule getCachedData_miss_later)
    then show "fst (route (snd (route cache now now' (Inr ()) findById ident))
                  t t' (Inr ()) findById' ident) =
             \<lparr>status = 200,
               headers = [(''Content-Type'', Some (contentType img)),
                          (''Cache-Control'', Some ''public, max-age=31536000'')],
               body = send (Some (imageData img))\<rparr>"
      unfolding first unfolding route using hit
      by (simp add: image_route_miss image_response_def)
  next
    assume "findById ident = Inl e"
    then show "route cache now now' (Inr ()) findById ident =
          (\<lparr>status = 500, headers = [], body = SendText ''Error serving image''\<rparr>, cache)"
      unfolding route by (simp add: image_route_miss[OF miss])
  next
    assume "findById ident = Inr (Some img)"
    then show "route cache now now' (Inr ()) findById ident =
          (\<lparr>status = 200,
             headers = [(''Content-Type'', Some (contentType img)),
                        (''Cache-Control'', Some ''public, max-age=31536000'')],
             body = send (Some (imageData img))\<rparr>,
           cache(''image_'' @ ident \<mapsto>
             \<lparr>data = CachedImage (contentType img) (imageData img), stored_timestamp = now'\<rparr>))"
      unfolding route
      by (simp add: image_route_miss[OF miss] image_response_def setCachedData_def)
  qed
qed

text \<open>
  An ObjectId on an empty cache: 404 while the store has no document for it, and the
  document, cached, once it has, in both routes.
\<close>

theorem get_image_lookup_witness:
  "get_image empty_cache 0 5 (Inr ()) (findById_gives (Inr None)) ''507f1f77bcf86cd799439011'' =
     (\<lparr>status = 404, headers = [], body = SendText ''Image not found''\<rparr>, empty_cache) \<and>
   get_image empty_cache 10 15 (Inr ()) (findById_gives (Inr (Some sample_document)))
       ''507f1f77bcf86cd799439011'' =
     (\<lparr>status = 200,
        headers = [(''Content-Type'', Some ''image/png''),
                   (''Cache-Control'', Some ''public, max-age=31536000'')],
        body = Send (Some [1, 2, 3])\<rparr>,
      empty_cache(''image_507f1f77bcf86cd799439011'' \<mapsto>
        \<lparr>data = CachedImage ''image/png'' [1, 2, 3], stored_timestamp = 15\<rparr>)) \<and>
   get_image_lean empty_cache 10 15 (Inr ()) (findById_gives (Inr (Some sample_document)))
       ''507f1f77bcf86cd799439011'' =
     (\<lparr>status = 200,
        headers = [(''Content-Type'', Some ''image/png''),
                   (''Cache-Control'', Some ''public, max-age=31536000'')],
        body = SendBinary (Some [1, 2, 3])\<rparr>,
      empty_cache(''image_507f1f77bcf86cd799439011'' \<mapsto>
        \<lparr>data = CachedImage ''image/png'' [1, 2, 3], stored_timestamp = 15\<rparr>))"
  using get_image_lookup [of get_image CACHE_TTL Send empty_cache 0 "''507f1f77bcf86cd799439011''"
      "findById_gives (Inr None)" 5 10 "findById_gives (Inr (Some sample_document))"
      sample_document 15 TypeError]
    get_image_lookup [of get_image CACHE_TTL Send empty_cache 10 "''507f1f77bcf86cd799439011''"
      "findById_gives (Inr (Some sample_document))" 15 10
      "findById_gives (Inr (Some sample_document))" sample_document 15 TypeError]
    get_image_lookup [of get_image_lean CACHE_TTL_paged SendBinary empty_cache 10
      "''507f1f77bcf86cd799439011''"
      "findById_gives (Inr (Some sample_document))" 15 10
      "findById_gives (Inr (Some sample_document))" sample_document 15 TypeError]
  by (simp add: getCachedData_def empty_cache_def findById_gives_def sample_document_def)

text \<open>
  C7 as stated fails: \<^verbatim>\<open>m1\<close> is in no store, for it is no ObjectId, and
  \<^verbatim>\<open>Image.findById\<close> rejects it with a CastError, which the \<^verbatim>\<open>catch\<close> block answers with
  500, not 404.
\<close>

theorem get_image_cast_error:
  "get_image empty_cache 0 0 (Inr ()) (findById_gives (Inl CastError)) ''m1'' =
     (\<lparr>status = 500, headers = [], body = SendText ''Error serving image''\<rparr>, empty_cache) \<and>
   get_image_lean empty_cache 0 0 (Inr ()) (findById_gives (Inl CastError)) ''m1'' =
     (\<lparr>status = 500, headers = [], body = SendText ''Error serving image''\<rparr>, empty_cache) \<and>
   status (fst (get_image empty_cache 0 0 (Inr ()) (findById_gives (Inl CastError)) ''m1''))
     \<noteq> 404"
  by (simp add: get_image_def get_image_lean_def image_route_def getCachedData_def
      empty_cache_def findById_gives_def)

section \<open>Properties of the paginated listing\<close>

lemma sorted_newest_first:
  "sorted_wrt (\<lambda>a b. timestamp b \<le> timestamp a) (newest_first db)"
proof -
  have "sorted (map (\<lambda>r. - timestamp r) (newest_first db))"
    unfolding newest_first_def by (rule sorted_sort_key)
  then show ?thesis by (simp add: sorted_map)
qed

lemma length_newest_first: "length (newest_first db) = length db"
  by (simp add: newest_first_def)

lemma newest_first_of_newest_first: "newest_first_of db (newest_first db)"
  by (simp add: newest_first_of_def sorted_newest_first) (simp add: newest_first_def)

lemma newest_first_of_length: "newest_first_of db xs \<Longrightarrow> length xs = length db"
  by (auto simp: newest_first_of_def dest: mset_eq_length)

lemma newest_first_of_distinct_oid:
  assumes "newest_first_of db xs"
  shows "distinct (map oid xs) = distinct (map oid db)"
proof -
  have "mset (map oid xs) = mset (map oid db)"
    using assms by (simp add: newest_first_of_def)
  then show ?thesis by (rule mset_eq_imp_distinct_iff)
qed

lemma newest_first_of_unique:
  assumes xs: "newest_first_of db xs" and ys: "newest_first_of db ys"
    and d: "distinct (map timestamp db)"
  shows "xs = ys"
proof -
  let ?g = "\<lambda>r. - timestamp r"
  have inj: "inj_on ?g (set db)"
    using d by (auto simp: distinct_map inj_on_def)
  have dg: "distinct (map ?g db)"
    using d inj by (simp add: distinct_map)
  have mx: "mset (map ?g xs) = mset (map ?g db)" and my: "mset (map ?g ys) = mset (map ?g db)"
    using xs ys by (simp_all add: newest_first_of_def)
  have sx: "sorted (map ?g xs)" and sy: "sorted (map ?g ys)"
    using xs ys by (simp_all add: newest_first_of_def sorted_map)
  have dx: "distinct (map ?g xs)" and dy: "distinct (map ?g ys)"
    using dg mset_eq_imp_distinct_iff[OF mx] mset_eq_imp_distinct_iff[OF my] by simp_all
  have "set (map ?g xs) = set (map ?g ys)"
    using mx my by (metis mset_eq_setD)
  then have eq: "map ?g xs = map ?g ys"
    using sx dx sy dy by (intro sorted_distinct_set_unique)
  have "set xs = set db" "set ys = set db"
    using xs ys by (auto simp: newest_first_of_def dest: mset_eq_setD)
  then have "inj_on ?g (set xs \<union> set ys)" using inj by simp
  with eq show ?thesis by (rule map_inj_on)
qed

lemma page_key_1_2:
  "''images_page_'' @ string_of_int 2 \<noteq> ''images_page_'' @ string_of_int 1"
  by (simp add: string_of_int_def string_of_nat.simps)

lemma list_images_miss:
  assumes "getCachedData CACHE_TTL_paged cache now (''images_page_'' @ string_of_int p) = None"
    and "1 \<le> p" and "1 \<le> n"
    and "safe_integer p" and "safe_integer n" and "safe_integer ((p - 1) * n)"
  shows "list_images cache now now' (Inr ()) (find_page xs) (Some p) (Some n) =
     Some (listing_response (CachedImages (take (nat n) (drop (nat ((p - 1) * n)) xs))),
       setCachedData cache now' (''images_page_'' @ string_of_int p)
         (CachedImages (take (nat n) (drop (nat ((p - 1) * n)) xs))))"
proof -
  have "0 \<le> (p - 1) * n" using assms(2,3) by simp
  moreover have "(p - 1) * n \<le> INT64_MAX" "\<bar>n\<bar> \<le> INT64_MAX"
    using assms(3,5,6) by (simp_all add: safe_integer_def MAX_SAFE_INTEGER_def INT64_MAX_def)
  moreover have "p \<noteq> 0" "n \<noteq> 0" "\<bar>n\<bar> = n" using assms(2,3) by simp_all
  ultimately have "find_page xs ((p - 1) * n) n =
      Inr (take (nat n) (drop (nat ((p - 1) * n)) xs))"
    by (simp add: find_page_def)
  then show ?thesis
    using assms(1,4,5,6) \<open>p \<noteq> 0\<close> \<open>n \<noteq> 0\<close>
    by (simp add: list_images_def parsed_or_def Let_def)
qed

lemma safe_small: "safe_integer 0" "safe_integer 1" "safe_integer 2" "safe_integer 10"
  by (simp_all add: safe_integer_def MAX_SAFE_INTEGER_def)

text \<open>
  C8, as the code has it.  On a cache miss with the database connected, page \<open>p \<ge> 1\<close> with
  limit \<open>n \<ge> 1\<close> (safe integers, with a safe skip) is the arrangement \<open>xs\<close> the store sorted
  its documents into, with \<open>(p - 1) * n\<close> of them skipped and the next \<open>n\<close> taken, and the
  cache is filled with it; \<open>xs\<close> is descending in the timestamp and holds every stored
  image once.  For a store of 15 images whose arrangement is the same in both queries
  (as it is when the timestamps differ), and a cache with no valid entry for pages 1 and
  2: page 1 of size 10 and then page 2 of size 10 are the first 10 and the last 5 images
  of that arrangement, each descending, together all of the store, with no identifier on
  both pages when the stored identifiers are distinct.
\<close>

theorem list_images_pages:
  "(1 \<le> p \<longrightarrow> 1 \<le> n \<longrightarrow> safe_integer p \<longrightarrow> safe_integer n \<longrightarrow> safe_integer ((p - 1) * n) \<longrightarrow>
    newest_first_of db xs \<longrightarrow>
    getCachedData CACHE_TTL_paged cache now (''images_page_'' @ string_of_int p) = None \<longrightarrow>
      list_images cache now now' (Inr ()) (find_page xs) (Some p) (Some n) =
        Some (listing_response (CachedImages (take (nat n) (drop (nat ((p - 1) * n)) xs))),
          setCachedData cache now' (''images_page_'' @ string_of_int p)
            (CachedImages (take (nat n) (drop (nat ((p - 1) * n)) xs)))) \<and>
      sorted_wrt (\<lambda>a b. timestamp b \<le> timestamp a) xs \<and> mset xs = mset db) \<and>
   (length db = 15 \<longrightarrow> newest_first_of db xs1 \<longrightarrow> newest_first_of db xs2 \<longrightarrow>
    (distinct (map timestamp db) \<or> xs1 = xs2) \<longrightarrow>
    getCachedData CACHE_TTL_paged cache t1 (''images_page_'' @ string_of_int 1) = None \<longrightarrow>
    getCachedData CACHE_TTL_paged cache t2 (''images_page_'' @ string_of_int 2) = None \<longrightarrow>
      list_images cache t1 t1' (Inr ()) (find_page xs1) (Some 1) (Some 10) =
        Some (listing_response (CachedImages (take 10 xs1)),
          setCachedData cache t1' (''images_page_'' @ string_of_int 1)
            (CachedImages (take 10 xs1))) \<and>
      list_images
          (setCachedData cache t1' (''images_page_'' @ string_of_int 1)
            (CachedImages (take 10 xs1)))
          t2 t2' (Inr ()) (find_page xs2) (Some 2) (Some 10) =
        Some (listing_response (CachedImages (drop 10 xs2)),
          setCachedData
            (setCachedData cache t1' (''images_page_'' @ string_of_int 1)
              (CachedImages (take 10 xs1)))
            t2' (''images_page_'' @ string_of_int 2) (CachedImages (drop 10 xs2))) \<and>
      length (take 10 xs1) = 10 \<and> length (drop 10 xs2) = 5 \<and>
      take 10 xs1 @ drop 10 xs2 = xs1 \<and>
      sorted_wrt (\<lambda>a b. timestamp b \<le> timestamp a) (take 10 xs1) \<and>
      sorted_wrt (\<lambda>a b. timestamp b \<le> timestamp a) (drop 10 xs2) \<and>
      mset (take 10 xs1) + mset (drop 10 xs2) = mset db \<and>
      (distinct (map oid db) \<longrightarrow>
         set (map oid (take 10 xs1)) \<inter> set (map oid (drop 10 xs2)) = {}))"
proof (intro conjI impI)
  assume "1 \<le> p" "1 \<le> n" "safe_integer p" "safe_integer n" "safe_integer ((p - 1) * n)"
    "getCachedData CACHE_TTL_paged cache now (''images_page_'' @ string_of_int p) = None"
  then show "list_images cache now now' (Inr ()) (find_page xs) (Some p) (Some n) =
        Some (listing_response (CachedImages (take (nat n) (drop (nat ((p - 1) * n)) xs))),
          setCachedData cache now' (''images_page_'' @ string_of_int p)
            (CachedImages (take (nat n) (drop (nat ((p - 1) * n)) xs))))"
    by (simp add: list_images_miss)
next
  assume "newest_first_of db xs"
  then show "sorted_wrt (\<lambda>a b. timestamp b \<le> timestamp a) xs" "mset xs = mset db"
    by (simp_all add: newest_first_of_def)
next
  assume len: "length db = 15"
    and x1: "newest_first_of db xs1" and x2: "newest_first_of db xs2"
    and same: "distinct (map timestamp db) \<or> xs1 = xs2"
    and m1: "getCachedData CACHE_TTL_paged cache t1 (''images_page_'' @ string_of_int 1) = None"
    and m2: "getCachedData CACHE_TTL_paged cache t2 (''images_page_'' @ string_of_int 2) = None"
  have eq: "xs2 = xs1"
    using same newest_first_of_unique[OF x2 x1] by auto
  have l: "length xs1 = 15" using len newest_first_of_length[OF x1] by simp
  have s1: "sorted_wrt (\<lambda>a b. timestamp b \<le> timestamp a) xs1" and ms: "mset xs1 = mset db"
    using x1 by (simp_all add: newest_first_of_def)
  show "list_images cache t1 t1' (Inr ()) (find_page xs1) (Some 1) (Some 10) =
        Some (listing_response (CachedImages (take 10 xs1)),
          setCachedData cache t1' (''images_page_'' @ string_of_int 1)
            (CachedImages (take 10 xs1)))"
    using list_images_miss[OF m1, of 10 t1' xs1] by (simp add: safe_small)
  have m2': "getCachedData CACHE_TTL_paged
      (setCachedData cache t1' (''images_page_'' @ string_of_int 1) (CachedImages (take 10 xs1)))
      t2 (''images_page_'' @ string_of_int 2) = None"
    using m2 page_key_1_2 by (simp add: getCachedData_setCachedData_other)
  have "take 10 (drop 10 xs2) = drop 10 xs2" using l eq by simp
  then show "list_images
          (setCachedData cache t1' (''images_page_'' @ string_of_int 1)
            (CachedImages (take 10 xs1)))
          t2 t2' (Inr ()) (find_page xs2) (Some 2) (Some 10) =
        Some (listing_response (CachedImages (drop 10 xs2)),
          setCachedData
            (setCachedData cache t1' (''images_page_'' @ string_of_int 1)
              (CachedImages (take 10 xs1)))
            t2' (''images_page_'' @ string_of_int 2) (CachedImages (drop 10 xs2)))"
    using list_images_miss[OF m2', of 10 t2' xs2] by (simp add: safe_small safe_integer_def MAX_SAFE_INTEGER_def)
  show "length (take 10 xs1) = 10" "length (drop 10 xs2) = 5" using l eq by simp_all
  show "take 10 xs1 @ drop 10 xs2 = xs1" unfolding eq by simp
  show "sorted_wrt (\<lambda>a b. timestamp b \<le> timestamp a) (take 10 xs1)"
    by (rule sorted_wrt_take[OF s1])
  show "sorted_wrt (\<lambda>a b. timestamp b \<le> timestamp a) (drop 10 xs2)"
    unfolding eq by (rule sorted_wrt_drop[OF s1])
  have "mset (take 10 xs1) + mset (drop 10 xs2) = mset (take 10 xs1 @ drop 10 xs1)"
    unfolding eq by (simp only: mset_append)
  then show "mset (take 10 xs1) + mset (drop 10 xs2) = mset db"
    by (simp only: append_take_drop_id ms)
  assume "distinct (map oid db)"
  then have "distinct (map oid (take 10 xs1 @ drop 10 xs1))"
    by (simp add: newest_first_of_distinct_oid[OF x1])
  then show "set (map oid (take 10 xs1)) \<inter> set (map oid (drop 10 xs2)) = {}"
    unfolding eq map_append distinct_append by simp
qed

lemma sample_store_15_sorted:
  "map oid (newest_first (sample_store 15)) =
     [''15'', ''14'', ''13'', ''12'', ''11'', ''10'', ''9'', ''8'', ''7'', ''6'', ''5'', ''4'', ''3'', ''2'', ''1'']"
  by code_simp

lemma sample_store_3_sorted:
  "map oid (newest_first (sample_store 3)) = [''3'', ''2'', ''1'']"
  by code_simp

lemma length_sample_store: "length (sample_store n) = n"
  by (simp add: sample_store_def)

text \<open>Fifteen images with timestamps 1 to 15: page 1 is images 15 to 6, page 2 images 5 to 1.\<close>

theorem list_images_pages_witness:
  "listed_ids (list_images empty_cache 0 1 (Inr ()) (find_page (newest_first (sample_store 15)))
      (Some 1) (Some 10)) =
     Some [''15'', ''14'', ''13'', ''12'', ''11'', ''10'', ''9'', ''8'', ''7'', ''6''] \<and>
   listed_ids (list_images
      (setCachedData empty_cache 1 (''images_page_'' @ string_of_int 1)
         (CachedImages (take 10 (newest_first (sample_store 15)))))
      2 3 (Inr ()) (find_page (newest_first (sample_store 15))) (Some 2) (Some 10)) =
     Some [''5'', ''4'', ''3'', ''2'', ''1'']"
proof -
  let ?xs = "newest_first (sample_store 15)"
  have miss: "getCachedData CACHE_TTL_paged empty_cache t k = None" for t k
    by (simp add: getCachedData_def empty_cache_def)
  have pages:
    "list_images empty_cache 0 1 (Inr ()) (find_page ?xs) (Some 1) (Some 10) =
       Some (listing_response (CachedImages (take 10 ?xs)),
         setCachedData empty_cache 1 (''images_page_'' @ string_of_int 1)
           (CachedImages (take 10 ?xs)))"
    "list_images
       (setCachedData empty_cache 1 (''images_page_'' @ string_of_int 1)
         (CachedImages (take 10 ?xs)))
       2 3 (Inr ()) (find_page ?xs) (Some 2) (Some 10) =
       Some (listing_response (CachedImages (drop 10 ?xs)),
         setCachedData
           (setCachedData empty_cache 1 (''images_page_'' @ string_of_int 1)
             (CachedImages (take 10 ?xs)))
           3 (''images_page_'' @ string_of_int 2) (CachedImages (drop 10 ?xs)))"
    using list_images_pages [of 1 10 "sample_store 15" ?xs empty_cache 0 1 ?xs ?xs 0 2 1 3]
    by (simp_all add: length_sample_store newest_first_of_newest_first miss)
  show ?thesis
    unfolding pages
    by (simp add: listed_ids_def listing_response_def sample_store_15_sorted
        take_map[symmetric] drop_map[symmetric])
qed

text \<open>
  C8 as stated fails: a valid cache entry is returned in place of the query.  Page 1 is
  listed at time 0 while the store holds three images; one second later the store holds
  fifteen, and page 1 of size 10 is still the three cached images; page 2 of size 10 is
  images 5 to 1.  Images 15 to 6 are on neither page.
\<close>

theorem list_images_stale_page:
  "list_images empty_cache 0 0 (Inr ()) (find_page (newest_first (sample_store 3)))
      (Some 1) (Some 10) =
     Some (listing_response (CachedImages (newest_first (sample_store 3))),
       setCachedData empty_cache 0 ''images_page_1''
         (CachedImages (newest_first (sample_store 3)))) \<and>
   length (sample_store 15) = 15 \<and>
   listed_ids (list_images
      (setCachedData empty_cache 0 ''images_page_1''
         (CachedImages (newest_first (sample_store 3))))
      1000 1000 (Inr ()) (find_page (newest_first (sample_store 15))) (Some 1) (Some 10)) =
     Some [''3'', ''2'', ''1''] \<and>
   listed_ids (list_images
      (setCachedData empty_cache 0 ''images_page_1''
         (CachedImages (newest_first (sample_store 3))))
      2000 2000 (Inr ()) (find_page (newest_first (sample_store 15))) (Some 2) (Some 10)) =
     Some [''5'', ''4'', ''3'', ''2'', ''1'']"
  by (simp add: list_images_def parsed_or_def getCachedData_def setCachedData_def find_page_def
      empty_cache_def CACHE_TTL_paged_def safe_integer_def MAX_SAFE_INTEGER_def INT64_MAX_def
      string_of_int_def string_of_nat.simps listed_ids_def listing_response_def
      length_sample_store length_newest_first sample_store_15_sorted sample_store_3_sorted
      take_map[symmetric] drop_map[symmetric])

text \<open>
  C9 fails on the code: the key is \<^verbatim>\<open>images_page_<page>\<close> and leaves the limit out.  On
  the store of fifteen images, page 1 with limit 5 is five images on an empty cache, and
  the ten images of the earlier request for page 1 with limit 10 when it comes one second
  after it.
\<close>

theorem list_images_key_without_limit:
  "listed_ids (list_images Map.empty 0 0 (Inr ()) (find_page (newest_first (sample_store 15)))
      (Some 1) (Some 5)) = Some [''15'', ''14'', ''13'', ''12'', ''11''] \<and>
   (case list_images Map.empty 0 0 (Inr ()) (find_page (newest_first (sample_store 15)))
           (Some 1) (Some 10) of
      None \<Rightarrow> None
    | Some (r, c) \<Rightarrow>
        listed_ids (list_images c 1000 1000 (Inr ()) (find_page (newest_first (sample_store 15)))
          (Some 1) (Some 5))) =
     Some [''15'', ''14'', ''13'', ''12'', ''11'', ''10'', ''9'', ''8'', ''7'', ''6'']"
  by (simp add: list_images_def parsed_or_def getCachedData_def setCachedData_def find_page_def
      CACHE_TTL_paged_def safe_integer_def MAX_SAFE_INTEGER_def INT64_MAX_def
      listed_ids_def listing_response_def sample_store_15_sorted
      take_map[symmetric] drop_map[symmetric])

end
